theory Spec2Isabelle
  imports Main "HOL-Library.Multiset"
begin

section \<open>Request values\<close>

text \<open>
  The views read the fields of a parsed JSON body with \<^verbatim>\<open>parsed_body.get(key)\<close>.
  A field is a JSON scalar: \<open>PNone\<close> stands for an absent key and for JSON null alike
  (\<^verbatim>\<open>parse_request_body\<close> is called with \<^verbatim>\<open>default_value=None\<close>). JSON arrays,
  objects and non-integer numbers are not part of the model. A Python \<^verbatim>\<open>str\<close> is a
  \<open>string\<close>; a \<open>char\<close> is read as the code point of the same number, so the model
  covers the code points below 256.
\<close>

datatype pyval = PNone | PBool bool | PInt int | PStr string

datatype error = InputValidationError string | AttributeError string

text \<open>\<^verbatim>\<open>bool(v)\<close>, the truth value Python gives \<open>v\<close> in \<^verbatim>\<open>not v\<close> as well.\<close>

fun truthy :: "pyval \<Rightarrow> bool" where
  "truthy PNone = False"
| "truthy (PBool b) = b"
| "truthy (PInt i) = (i \<noteq> 0)"
| "truthy (PStr s) = (s \<noteq> [])"

text \<open>\<^verbatim>\<open>str.isspace\<close> on one character, for the code points below 256.\<close>

definition isspace :: "char \<Rightarrow> bool" where
  "isspace c = (let n = (of_char c :: nat) in
     (9 \<le> n \<and> n \<le> 13) \<or> (28 \<le> n \<and> n \<le> 32) \<or> n = 133 \<or> n = 160)"

text \<open>\<^verbatim>\<open>s.strip()\<close>: leading and trailing whitespace removed.\<close>

definition strip :: "string \<Rightarrow> string" where
  "strip s = rev (dropWhile isspace (rev (dropWhile isspace s)))"

fun digits :: "nat \<Rightarrow> string" where
  "digits n = (if n < 10 then [char_of (48 + n)]
               else digits (n div 10) @ [char_of (48 + n mod 10)])"

text \<open>\<^verbatim>\<open>str(v)\<close>.\<close>

fun py_str :: "pyval \<Rightarrow> string" where
  "py_str PNone = ''None''"
| "py_str (PBool b) = (if b then ''True'' else ''False'')"
| "py_str (PInt i) = (if i < 0 then CHR ''-'' # digits (nat (- i)) else digits (nat i))"
| "py_str (PStr s) = s"

text \<open>\<^verbatim>\<open>v.strip()\<close>: only a \<^verbatim>\<open>str\<close> has the method, any other value raises.\<close>

fun strip_method :: "pyval \<Rightarrow> error + string" where
  "strip_method (PStr s) = Inr (strip s)"
| "strip_method PNone = Inl (AttributeError ''NoneType'')"
| "strip_method (PBool b) = Inl (AttributeError ''bool'')"
| "strip_method (PInt i) = Inl (AttributeError ''int'')"

text \<open>
  The test \<^verbatim>\<open>not v or not str(v).strip()\<close> that every view applies to a text field.
\<close>

definition blank :: "pyval \<Rightarrow> bool" where
  "blank v = (\<not> truthy v \<or> strip (py_str v) = [])"

section \<open>Entities\<close>

text \<open>
  \<^verbatim>\<open>Task(VersionedModel)\<close> of \<^verbatim>\<open>common/models/task.py\<close>. Of the fields of the
  base class the model keeps the three that the views, the service and the listing
  query read: the identifier, the soft-delete flag and the change timestamp (an
  \<open>int\<close>, later is larger).
\<close>

record versioned_model =
  entity_id :: string
  active :: bool
  changed_on :: int

record task = versioned_model +
  person_id :: "string option"
  title :: "string option"
  completed :: bool

text \<open>
  Modelled from the spec: the Person entity (\<^verbatim>\<open>common/models/person.py\<close> is not
  among the sources): a versioned entity with the optional \<open>first_name\<close> and
  \<open>last_name\<close>.
\<close>

record person = versioned_model +
  first_name :: "string option"
  last_name :: "string option"

text \<open>
  \<^verbatim>\<open>Task(person_id=..., title=..., completed=...)\<close>: the identifier is generated at
  construction (\<open>new_id\<close> is that generated value) and the record starts active.
\<close>

definition Task :: "string \<Rightarrow> int \<Rightarrow> string option \<Rightarrow> string option \<Rightarrow> bool \<Rightarrow> task" where
  "Task new_id now pid ttl cmp =
     \<lparr>entity_id = new_id, active = True, changed_on = now,
      person_id = pid, title = ttl, completed = cmp\<rparr>"

section \<open>Repository\<close>

text \<open>
  Modelled from the spec: the repository collaborator (\<^verbatim>\<open>BaseRepository\<close> is not
  among the sources). A table is the list of its current rows, one per identifier.
  \<open>save\<close> is insert-or-update on the identifier and refreshes \<open>changed_on\<close>; it
  returns the saved entity.
\<close>

definition save :: "int \<Rightarrow> 'a versioned_model_scheme \<Rightarrow> 'a versioned_model_scheme list
    \<Rightarrow> 'a versioned_model_scheme \<times> 'a versioned_model_scheme list" where
  "save now inst rows =
     (let inst' = inst\<lparr>changed_on := now\<rparr>
      in (inst', inst' # filter (\<lambda>r. entity_id r \<noteq> entity_id inst') rows))"

text \<open>
  Modelled from the spec: \<^verbatim>\<open>get_one({"entity_id": eid})\<close> returns the entity or
  none, and reads filter on \<open>active = true\<close> (the tests find \<^verbatim>\<open>None\<close> for a
  soft-deleted task).
\<close>

definition get_one :: "string \<Rightarrow> 'a versioned_model_scheme list \<Rightarrow> 'a versioned_model_scheme option" where
  "get_one eid rows = find (\<lambda>r. entity_id r = eid \<and> active r) rows"

text \<open>
  \<^verbatim>\<open>TaskRepository.get_tasks_by_person_id_ordered\<close>: the rows selected by
  \<^verbatim>\<open>WHERE person_id = %s AND active = true ORDER BY changed_on DESC\<close>, each copied
  into a \<^verbatim>\<open>Task\<close>. Rows with equal timestamps keep their table order.
\<close>

definition get_tasks_by_person_id_ordered :: "string \<Rightarrow> task list \<Rightarrow> task list" where
  "get_tasks_by_person_id_ordered pid rows =
     sort_key (\<lambda>t. - changed_on t) (filter (\<lambda>t. person_id t = Some pid \<and> active t) rows)"

section \<open>Services\<close>

text \<open>
  The state the services work on: the two tables and the sequence of repository calls
  made so far, the latest last.
\<close>

datatype repo_call =
    TaskGetOne string | TaskSave string | TaskQuery string
  | PersonGetOne string | PersonSave string

record db =
  tasks :: "task list"
  persons :: "person list"
  calls :: "repo_call list"

text \<open>\<^verbatim>\<open>TaskService\<close> of \<^verbatim>\<open>common/services/task.py\<close>.\<close>

definition save_task :: "int \<Rightarrow> task \<Rightarrow> db \<Rightarrow> task \<times> db" where
  "save_task now t s =
     (let (t', rows) = save now t (tasks s)
      in (t', s\<lparr>tasks := rows, calls := calls s @ [TaskSave (entity_id t)]\<rparr>))"

definition get_task_by_id :: "string \<Rightarrow> db \<Rightarrow> task option \<times> db" where
  "get_task_by_id eid s = (get_one eid (tasks s), s\<lparr>calls := calls s @ [TaskGetOne eid]\<rparr>)"

definition get_tasks_by_person_id :: "string \<Rightarrow> db \<Rightarrow> task list \<times> db" where
  "get_tasks_by_person_id pid s =
     (get_tasks_by_person_id_ordered pid (tasks s), s\<lparr>calls := calls s @ [TaskQuery pid]\<rparr>)"

definition delete_task :: "int \<Rightarrow> task \<Rightarrow> db \<Rightarrow> task \<times> db" where
  "delete_task now t s = save_task now (t\<lparr>active := False\<rparr>) s"

text \<open>
  Modelled from the spec: \<^verbatim>\<open>PersonService\<close> (\<^verbatim>\<open>common/services/person.py\<close> is not
  among the sources): \<open>get_person_by_id\<close> and \<open>save_person\<close> go to the person
  repository as the task service goes to the task repository.
\<close>

definition save_person :: "int \<Rightarrow> person \<Rightarrow> db \<Rightarrow> person \<times> db" where
  "save_person now p s =
     (let (p', rows) = save now p (persons s)
      in (p', s\<lparr>persons := rows, calls := calls s @ [PersonSave (entity_id p)]\<rparr>))"

definition get_person_by_id :: "string \<Rightarrow> db \<Rightarrow> person option \<times> db" where
  "get_person_by_id eid s = (get_one eid (persons s), s\<lparr>calls := calls s @ [PersonGetOne eid]\<rparr>)"

section \<open>Views\<close>

text \<open>
  \<^verbatim>\<open>get_success_response(**kwargs)\<close>: the optional message and the payload.
  \<^verbatim>\<open>as_dict()\<close> lists the fields of the entity, so the payload is the record.
\<close>

datatype payload =
  TasksPayload "task list" | TaskPayload task | PersonPayload "person option" | NoPayload

datatype response = Success "string option" payload

type_synonym outcome = "(error + response) \<times> db"

text \<open>\<^verbatim>\<open>Tasks.get\<close>; \<open>pid\<close> is \<^verbatim>\<open>person.entity_id\<close> of the authenticated person.\<close>

definition Tasks_get :: "string \<Rightarrow> db \<Rightarrow> outcome" where
  "Tasks_get pid s =
     (let (ts, s1) = get_tasks_by_person_id pid s;
          tasks_list = (if ts \<noteq> [] then map (\<lambda>t. t) ts else [])
      in (Inr (Success None (TasksPayload tasks_list)), s1))"

text \<open>
  \<^verbatim>\<open>Tasks.post\<close>. \<^verbatim>\<open>validate_required_fields\<close> is not among the sources; it is
  the parameter \<open>vrf\<close>, which receives the parsed body and answers \<open>Some m\<close> when it
  raises \<^verbatim>\<open>InputValidationError(m)\<close>.
\<close>

definition Tasks_post :: "((string \<times> pyval) list \<Rightarrow> string option) \<Rightarrow> string \<Rightarrow> string \<Rightarrow> int
    \<Rightarrow> pyval \<Rightarrow> db \<Rightarrow> outcome" where
  "Tasks_post vrf pid new_id now ttl s =
     (case vrf [(''title'', ttl)] of
        Some m \<Rightarrow> (Inl (InputValidationError m), s)
      | None \<Rightarrow>
         if blank ttl then (Inl (InputValidationError '''title' cannot be empty.''), s)
         else (case strip_method ttl of
                 Inl e \<Rightarrow> (Inl e, s)
               | Inr stripped \<Rightarrow>
                  (let new_task = Task new_id now (Some pid) (Some stripped) False;
                       (saved_task, s1) = save_task now new_task s
                   in (Inr (Success (Some ''Task created successfully.'') (TaskPayload saved_task)), s1))))"

text \<open>\<^verbatim>\<open>TaskById.put\<close>.\<close>

definition TaskById_put :: "string \<Rightarrow> string \<Rightarrow> int \<Rightarrow> pyval \<Rightarrow> pyval \<Rightarrow> db \<Rightarrow> outcome" where
  "TaskById_put task_id pid now ttl cmp s =
     (if ttl = PNone \<and> cmp = PNone then
        (Inl (InputValidationError
           ''At least one of 'title' or 'completed' must be provided.''), s)
      else if ttl \<noteq> PNone \<and> blank ttl then
        (Inl (InputValidationError '''title' cannot be empty if provided.''), s)
      else
        (let (existing_task, s1) = get_task_by_id task_id s in
         case existing_task of
           None \<Rightarrow> (Inl (InputValidationError ''Task not found.''), s1)
         | Some t \<Rightarrow>
            if person_id t \<noteq> Some pid then
              (Inl (InputValidationError ''You do not have permission to update this task.''), s1)
            else
              (case (if ttl \<noteq> PNone
                     then (case strip_method ttl of
                             Inl e \<Rightarrow> Inl e
                           | Inr stripped \<Rightarrow> Inr (t\<lparr>title := Some stripped\<rparr>))
                     else Inr t) of
                 Inl e \<Rightarrow> (Inl e, s1)
               | Inr t1 \<Rightarrow>
                  (let t2 = (if cmp \<noteq> PNone then t1\<lparr>completed := truthy cmp\<rparr> else t1);
                       (saved, s2) = save_task now t2 s1;
                       (updated_task, s3) = get_task_by_id task_id s2
                   in case updated_task of
                        None \<Rightarrow> (Inl (AttributeError ''NoneType''), s3)
                      | Some u \<Rightarrow>
                         (Inr (Success (Some ''Task updated successfully.'') (TaskPayload u)), s3)))))"

text \<open>\<^verbatim>\<open>TaskById.delete\<close>.\<close>

definition TaskById_delete :: "string \<Rightarrow> string \<Rightarrow> int \<Rightarrow> db \<Rightarrow> outcome" where
  "TaskById_delete task_id pid now s =
     (let (existing_task, s1) = get_task_by_id task_id s in
      case existing_task of
        None \<Rightarrow> (Inl (InputValidationError ''Task not found.''), s1)
      | Some t \<Rightarrow>
         if person_id t \<noteq> Some pid then
           (Inl (InputValidationError ''You do not have permission to delete this task.''), s1)
         else
           (let (deleted, s2) = delete_task now t s1
            in (Inr (Success (Some ''Task deleted successfully.'') NoPayload), s2)))"

text \<open>\<^verbatim>\<open>Me.get\<close>.\<close>

definition Me_get :: "string \<Rightarrow> db \<Rightarrow> outcome" where
  "Me_get pid s =
     (let (db_person, s1) = get_person_by_id pid s in
      case db_person of
        None \<Rightarrow> (Inl (InputValidationError ''Person not found.''), s1)
      | Some p \<Rightarrow> (Inr (Success None (PersonPayload (Some p))), s1))"

text \<open>\<^verbatim>\<open>Me.put\<close>.\<close>

definition Me_put :: "string \<Rightarrow> int \<Rightarrow> pyval \<Rightarrow> pyval \<Rightarrow> db \<Rightarrow> outcome" where
  "Me_put pid now fn ln s =
     (if \<not> truthy fn \<and> \<not> truthy ln then
        (Inl (InputValidationError
           ''At least one of 'first_name' or 'last_name' must be provided.''), s)
      else if fn \<noteq> PNone \<and> blank fn then
        (Inl (InputValidationError '''first_name' cannot be empty if provided.''), s)
      else if ln \<noteq> PNone \<and> blank ln then
        (Inl (InputValidationError '''last_name' cannot be empty if provided.''), s)
      else
        (let (db_person, s1) = get_person_by_id pid s in
         case db_person of
           None \<Rightarrow> (Inl (InputValidationError ''Person not found.''), s1)
         | Some p \<Rightarrow>
            (case (if fn \<noteq> PNone
                   then (case strip_method fn of
                           Inl e \<Rightarrow> Inl e
                         | Inr stripped \<Rightarrow> Inr (p\<lparr>first_name := Some stripped\<rparr>))
                   else Inr p) of
               Inl e \<Rightarrow> (Inl e, s1)
             | Inr p1 \<Rightarrow>
                (case (if ln \<noteq> PNone
                       then (case strip_method ln of
                               Inl e \<Rightarrow> Inl e
                             | Inr stripped \<Rightarrow> Inr (p1\<lparr>last_name := Some stripped\<rparr>))
                       else Inr p1) of
                   Inl e \<Rightarrow> (Inl e, s1)
                 | Inr p2 \<Rightarrow>
                    (let (saved, s2) = save_person now p2 s1;
                         (saved_person, s3) = get_person_by_id pid s2
                     in (Inr (Success (Some ''Name updated successfully.'')
                           (PersonPayload saved_person)), s3))))))"

section \<open>Requests in sequence\<close>

text \<open>
  The routes of the two namespaces: a request names its view and carries what the view
  reads (the authenticated person's identifier, the path parameter, the body fields,
  the time of the request and, for a creation, the identifier generated for the new
  task).
\<close>

datatype request =
    GetTasks string
  | PostTask string string int pyval
  | PutTask string string int pyval pyval
  | DeleteTask string string int
  | GetMe string
  | PutMe string int pyval pyval

fun dispatch :: "((string \<times> pyval) list \<Rightarrow> string option) \<Rightarrow> request \<Rightarrow> db \<Rightarrow> outcome" where
  "dispatch vrf (GetTasks pid) s = Tasks_get pid s"
| "dispatch vrf (PostTask pid new_id now ttl) s = Tasks_post vrf pid new_id now ttl s"
| "dispatch vrf (PutTask task_id pid now ttl cmp) s = TaskById_put task_id pid now ttl cmp s"
| "dispatch vrf (DeleteTask task_id pid now) s = TaskById_delete task_id pid now s"
| "dispatch vrf (GetMe pid) s = Me_get pid s"
| "dispatch vrf (PutMe pid now fn ln) s = Me_put pid now fn ln s"

fun serve :: "((string \<times> pyval) list \<Rightarrow> string option) \<Rightarrow> request list \<Rightarrow> db \<Rightarrow> db" where
  "serve vrf [] s = s"
| "serve vrf (r # rs) s = serve vrf rs (snd (dispatch vrf r s))"

text \<open>The identifier a request generates for a new entity, if it creates one.\<close>

fun generated_id :: "request \<Rightarrow> string option" where
  "generated_id (PostTask pid new_id now ttl) = Some new_id"
| "generated_id _ = None"

section \<open>An example store\<close>

definition milk :: task where
  "milk = \<lparr>entity_id = ''t1'', active = True, changed_on = 10,
            person_id = Some ''p1'', title = Some ''Buy milk'', completed = True\<rparr>"

definition dog :: task where
  "dog = \<lparr>entity_id = ''t2'', active = True, changed_on = 30,
           person_id = Some ''p1'', title = Some ''Walk dog'', completed = False\<rparr>"

definition rent :: task where
  "rent = \<lparr>entity_id = ''t3'', active = True, changed_on = 20,
            person_id = Some ''p2'', title = Some ''Pay rent'', completed = False\<rparr>"

definition ada :: person where
  "ada = \<lparr>entity_id = ''p1'', active = True, changed_on = 1,
           first_name = Some ''Ada'', last_name = Some ''Lovelace''\<rparr>"

definition example_db :: db where
  "example_db = \<lparr>tasks = [milk, dog, rent], persons = [ada], calls = []\<rparr>"

text \<open>A stand-in for the required-fields helper that accepts every body.\<close>

definition accept_all :: "(string \<times> pyval) list \<Rightarrow> string option" where
  "accept_all body = None"

section \<open>Facts about trimming and the repository\<close>

lemma dropWhile_all_iff: "(\<forall>c \<in> set (dropWhile P s). P c) \<longleftrightarrow> dropWhile P s = []"
proof (cases "dropWhile P s")
  case Nil
  then show ?thesis by (simp del: dropWhile_eq_Nil_conv)
next
  case (Cons a as)
  then have "\<not> P a" using hd_dropWhile [of P s] by simp
  with Cons show ?thesis by auto
qed

text \<open>A string trims to the empty string exactly when it is whitespace throughout.\<close>

lemma strip_Nil_iff: "strip s = [] \<longleftrightarrow> (\<forall>c \<in> set s. isspace c)"
proof -
  have "strip s = [] \<longleftrightarrow> (\<forall>c \<in> set (dropWhile isspace s). isspace c)"
    unfolding strip_def rev_is_Nil_conv dropWhile_eq_Nil_conv set_rev ..
  also have "\<dots> \<longleftrightarrow> dropWhile isspace s = []"
    by (rule dropWhile_all_iff)
  also have "\<dots> \<longleftrightarrow> (\<forall>c \<in> set s. isspace c)"
    by (rule dropWhile_eq_Nil_conv)
  finally show ?thesis .
qed

lemma blank_PStr: "blank (PStr x) \<longleftrightarrow> strip x = []"
  by (auto simp: blank_def strip_def)

lemma get_one_SomeD:
  "get_one eid rows = Some t \<Longrightarrow> t \<in> set rows \<and> entity_id t = eid \<and> active t"
  by (auto simp: get_one_def find_Some_iff)

lemma TaskById_put_success:
  assumes "get_one tid (tasks s) = Some t" and "person_id t = Some pid"
    and "\<not> (ttl = PNone \<and> cmp = PNone)"
    and "ttl = PNone \<or> (\<exists>x. ttl = PStr x \<and> strip x \<noteq> [])"
  shows "TaskById_put tid pid now ttl cmp s =
    (let u = t\<lparr>changed_on := now,
                title := (case ttl of PStr x \<Rightarrow> Some (strip x) | _ \<Rightarrow> title t),
                completed := (if cmp = PNone then completed t else truthy cmp)\<rparr>
     in (Inr (Success (Some ''Task updated successfully.'') (TaskPayload u)),
         s\<lparr>tasks := u # filter (\<lambda>r. entity_id r \<noteq> tid) (tasks s),
           calls := calls s @ [TaskGetOne tid, TaskSave tid, TaskGetOne tid]\<rparr>))"
proof -
  from assms(1) have t: "entity_id t = tid" "active t"
    by (simp_all add: get_one_SomeD)
  show ?thesis
  proof (cases "ttl = PNone")
    case True
    with assms t show ?thesis
      by (simp add: TaskById_put_def get_task_by_id_def save_task_def save_def get_one_def Let_def)
  next
    case False
    with assms(4) obtain x where x: "ttl = PStr x" "strip x \<noteq> []" by auto
    with assms t show ?thesis
      by (simp add: TaskById_put_def get_task_by_id_def save_task_def save_def get_one_def Let_def
          blank_PStr)
  qed
qed


lemma Me_put_success:
  assumes "get_one pid (persons s) = Some p"
    and "\<not> (fn = PNone \<and> ln = PNone)"
    and "fn = PNone \<or> (\<exists>x. fn = PStr x \<and> strip x \<noteq> [])"
    and "ln = PNone \<or> (\<exists>x. ln = PStr x \<and> strip x \<noteq> [])"
  shows "Me_put pid now fn ln s =
    (let q = p\<lparr>changed_on := now,
                first_name := (case fn of PStr x \<Rightarrow> Some (strip x) | _ \<Rightarrow> first_name p),
                last_name := (case ln of PStr x \<Rightarrow> Some (strip x) | _ \<Rightarrow> last_name p)\<rparr>
     in (Inr (Success (Some ''Name updated successfully.'') (PersonPayload (Some q))),
         s\<lparr>persons := q # filter (\<lambda>r. entity_id r \<noteq> pid) (persons s),
           calls := calls s @ [PersonGetOne pid, PersonSave pid, PersonGetOne pid]\<rparr>))"
proof -
  from assms(1) have p: "entity_id p = pid" "active p"
    by (simp_all add: get_one_SomeD)
  have nb: "v = PNone \<or> (\<exists>x. v = PStr x \<and> strip x \<noteq> []) \<Longrightarrow> v \<noteq> PNone \<Longrightarrow> \<not> blank v \<and> truthy v" for v
    by (auto simp: blank_PStr strip_def)
  from assms(2-4) have tr: "truthy fn \<or> truthy ln"
    using nb by blast
  from assms(3) consider "fn = PNone" | x where "fn = PStr x" "strip x \<noteq> []" by auto
  then show ?thesis
  proof cases
    case 1
    with assms(2,4) obtain y where y: "ln = PStr y" "strip y \<noteq> []" by auto
    with 1 assms(1) p tr show ?thesis
      by (simp add: Me_put_def get_person_by_id_def save_person_def save_def get_one_def Let_def
          blank_PStr)
  next
    case 2
    from assms(4) consider "ln = PNone" | y where "ln = PStr y" "strip y \<noteq> []" by auto
    then show ?thesis
    proof cases
      case 1
      with 2 assms(1) p tr show ?thesis
        by (simp add: Me_put_def get_person_by_id_def save_person_def save_def get_one_def Let_def
            blank_PStr)
    next
      case 2
      with \<open>fn = PStr x\<close> \<open>strip x \<noteq> []\<close> assms(1) p tr show ?thesis
        by (simp add: Me_put_def get_person_by_id_def save_person_def save_def get_one_def Let_def
            blank_PStr)
    qed
  qed
qed

lemma TaskById_put_error:
  assumes "fst (TaskById_put tid pid now ttl cmp s) = Inl e"
  shows "tasks (snd (TaskById_put tid pid now ttl cmp s)) = tasks s \<and>
         persons (snd (TaskById_put tid pid now ttl cmp s)) = persons s"
proof (cases "get_one tid (tasks s)")
  case None
  then show ?thesis
    by (simp add: TaskById_put_def get_task_by_id_def Let_def)
next
  case (Some t)
  show ?thesis
  proof (cases "person_id t = Some pid \<and> \<not> (ttl = PNone \<and> cmp = PNone)
      \<and> (ttl = PNone \<or> (\<exists>x. ttl = PStr x \<and> strip x \<noteq> []))")
    case True
    with Some assms show ?thesis
      by (simp add: TaskById_put_success Let_def)
  next
    case False
    with Some show ?thesis
      by (cases ttl) (auto simp: TaskById_put_def get_task_by_id_def blank_PStr Let_def)
  qed
qed

lemmas example_defs = example_db_def milk_def dog_def rent_def ada_def

section \<open>Ownership\<close>

text \<open>
  C1, as the spec states it, fails on the code: \<^verbatim>\<open>TaskById.put\<close> checks the body
  before it looks at the task, so an update with neither field, sent by \<open>p2\<close> for a task
  of \<open>p1\<close>, is answered with the no-fields message and not with the permission
  message.
\<close>

theorem update_foreign_task_empty_body_counterexample:
  "get_one ''t1'' (tasks example_db) = Some milk \<and> person_id milk \<noteq> Some ''p2''
   \<and> fst (TaskById_put ''t1'' ''p2'' 50 PNone PNone example_db)
       = Inl (InputValidationError ''At least one of 'title' or 'completed' must be provided.'')
   \<and> fst (TaskById_put ''t1'' ''p2'' 50 PNone PNone example_db)
       \<noteq> Inl (InputValidationError ''You do not have permission to update this task.'')"
  by (simp add: TaskById_put_def get_one_def example_defs)

text \<open>
  C1, amended: when the task that \<^verbatim>\<open>get_task_by_id\<close> finds belongs to another
  person, a delete request, and an update request whose body passes the two body checks,
  fail with the permission message, which is not the not-found message; whatever the
  body, the task table is left as it was and the task can still be fetched unchanged.
\<close>

theorem ownership_mismatch_rejected:
  assumes "get_one tid (tasks s) = Some t" and "person_id t \<noteq> Some pid"
    and "\<not> (ttl = PNone \<and> cmp = PNone)" and "ttl = PNone \<or> \<not> blank ttl"
  shows "TaskById_delete tid pid now s =
           (Inl (InputValidationError ''You do not have permission to delete this task.''),
            s\<lparr>calls := calls s @ [TaskGetOne tid]\<rparr>)
       \<and> TaskById_put tid pid now ttl cmp s =
           (Inl (InputValidationError ''You do not have permission to update this task.''),
            s\<lparr>calls := calls s @ [TaskGetOne tid]\<rparr>)
       \<and> fst (TaskById_delete tid pid now s) \<noteq> Inl (InputValidationError ''Task not found.'')
       \<and> fst (TaskById_put tid pid now ttl cmp s) \<noteq> Inl (InputValidationError ''Task not found.'')
       \<and> tasks (snd (TaskById_delete tid pid now s)) = tasks s
       \<and> tasks (snd (TaskById_put tid pid now ttl' cmp' s)) = tasks s
       \<and> get_one tid (tasks (snd (TaskById_delete tid pid now s))) = Some t
       \<and> get_one tid (tasks (snd (TaskById_put tid pid now ttl' cmp' s))) = Some t"
proof -
  have d: "TaskById_delete tid pid now s =
           (Inl (InputValidationError ''You do not have permission to delete this task.''),
            s\<lparr>calls := calls s @ [TaskGetOne tid]\<rparr>)"
    using assms(1,2) by (simp add: TaskById_delete_def get_task_by_id_def)
  have p: "TaskById_put tid pid now ttl cmp s =
           (Inl (InputValidationError ''You do not have permission to update this task.''),
            s\<lparr>calls := calls s @ [TaskGetOne tid]\<rparr>)"
    using assms by (auto simp: TaskById_put_def get_task_by_id_def)
  have u: "tasks (snd (TaskById_put tid pid now ttl' cmp' s)) = tasks s"
    using assms(1,2) by (simp add: TaskById_put_def get_task_by_id_def)
  from d p u assms(1) show ?thesis by simp
qed

theorem ownership_mismatch_rejected_witness:
  "get_one ''t1'' (tasks example_db) = Some milk \<and> person_id milk \<noteq> Some ''p2''
   \<and> TaskById_delete ''t1'' ''p2'' 50 example_db =
       (Inl (InputValidationError ''You do not have permission to delete this task.''),
        example_db\<lparr>calls := [TaskGetOne ''t1'']\<rparr>)
   \<and> TaskById_put ''t1'' ''p2'' 50 (PStr ''Stolen'') PNone example_db =
       (Inl (InputValidationError ''You do not have permission to update this task.''),
        example_db\<lparr>calls := [TaskGetOne ''t1'']\<rparr>)
   \<and> get_one ''t1'' (tasks (snd (TaskById_put ''t1'' ''p2'' 50 PNone PNone example_db))) = Some milk"
proof -
  have h1: "get_one ''t1'' (tasks example_db) = Some milk"
    by (simp add: get_one_def example_defs)
  have h2: "person_id milk \<noteq> Some ''p2''"
    by (simp add: milk_def)
  have h3: "\<not> (PStr ''Stolen'' = PNone \<and> PNone = PNone)" by simp
  have h4: "PStr ''Stolen'' = PNone \<or> \<not> blank (PStr ''Stolen'')"
    by (simp add: blank_def strip_def isspace_def)
  have c: "calls example_db = []" by (simp add: example_db_def)
  from ownership_mismatch_rejected [OF h1 h2 h3 h4, of 50 PNone PNone] h1 h2 c
  show ?thesis by simp
qed

section \<open>Listing\<close>

lemma get_one_None_iff:
  "get_one eid rows = None \<longleftrightarrow> (\<forall>r \<in> set rows. entity_id r = eid \<longrightarrow> \<not> active r)"
  by (auto simp: get_one_def find_None_iff)

lemma get_one_upsert_other:
  "eid \<noteq> entity_id u \<Longrightarrow>
     get_one eid (u # filter (\<lambda>r. entity_id r \<noteq> entity_id u) rows) = get_one eid rows"
  by (induction rows) (auto simp: get_one_def)

lemma get_one_upsert_same:
  "get_one (entity_id u) (u # filter (\<lambda>r. entity_id r \<noteq> entity_id u) rows)
     = (if active u then Some u else None)"
  by (auto simp: get_one_def find_None_iff)

lemma set_listing:
  "set (get_tasks_by_person_id_ordered p rows) = {t \<in> set rows. person_id t = Some p \<and> active t}"
  by (auto simp: get_tasks_by_person_id_ordered_def)

lemma listing_descending:
  "sorted_wrt (\<lambda>a b. changed_on b \<le> changed_on a) (get_tasks_by_person_id_ordered p rows)"
proof -
  have "sorted (map (\<lambda>t. - changed_on t) (get_tasks_by_person_id_ordered p rows))"
    unfolding get_tasks_by_person_id_ordered_def by (rule sorted_sort_key)
  then show ?thesis by (simp add: sorted_map)
qed

lemma Tasks_get_eq:
  "Tasks_get p s = (Inr (Success None (TasksPayload (get_tasks_by_person_id_ordered p (tasks s)))),
                    s\<lparr>calls := calls s @ [TaskQuery p]\<rparr>)"
  by (simp add: Tasks_get_def get_tasks_by_person_id_def)

text \<open>
  C2: for every person \<open>p\<close> the listing query returns exactly the rows (counted with
  multiplicity) whose \<open>person_id\<close> is \<open>p\<close> and whose \<open>active\<close> flag is true, ordered
  by \<open>changed_on\<close> descending; no returned task belongs to another person; and
  \<^verbatim>\<open>Tasks.get\<close> answers with that list, the empty list when there is no such task,
  never with an error, and leaves the table alone.
\<close>

theorem list_by_owner_exact:
  "mset (get_tasks_by_person_id_ordered p rows)
     = filter_mset (\<lambda>t. person_id t = Some p \<and> active t) (mset rows)
   \<and> set (get_tasks_by_person_id_ordered p rows)
       = {t \<in> set rows. person_id t = Some p \<and> active t}
   \<and> sorted_wrt (\<lambda>a b. changed_on b \<le> changed_on a) (get_tasks_by_person_id_ordered p rows)
   \<and> (\<forall>t \<in> set (get_tasks_by_person_id_ordered p rows). person_id t = Some p)
   \<and> fst (Tasks_get p s)
       = Inr (Success None (TasksPayload (get_tasks_by_person_id_ordered p (tasks s))))
   \<and> tasks (snd (Tasks_get p s)) = tasks s
   \<and> ((\<forall>t \<in> set (tasks s). \<not> (person_id t = Some p \<and> active t))
        \<longrightarrow> fst (Tasks_get p s) = Inr (Success None (TasksPayload [])))"
proof -
  have m: "mset (get_tasks_by_person_id_ordered p rows)
     = filter_mset (\<lambda>t. person_id t = Some p \<and> active t) (mset rows)"
    by (simp add: get_tasks_by_person_id_ordered_def)
  have e: "get_tasks_by_person_id_ordered p (tasks s) = []"
    if "\<forall>t \<in> set (tasks s). \<not> (person_id t = Some p \<and> active t)"
  proof -
    from that have "set (get_tasks_by_person_id_ordered p (tasks s)) = {}"
      unfolding set_listing by blast
    then show ?thesis by simp
  qed
  show ?thesis
    using m e by (simp add: set_listing listing_descending Tasks_get_eq)
qed

theorem list_by_owner_exact_witness:
  "get_tasks_by_person_id_ordered ''p1'' (tasks example_db) = [dog, milk]
   \<and> changed_on milk \<le> changed_on dog
   \<and> rent \<notin> set (get_tasks_by_person_id_ordered ''p1'' (tasks example_db))
   \<and> filter (\<lambda>t. person_id t = Some ''p9'' \<and> active t) (tasks example_db) = []
   \<and> fst (Tasks_get ''p9'' example_db) = Inr (Success None (TasksPayload []))"
proof -
  have l: "get_tasks_by_person_id_ordered ''p1'' (tasks example_db) = [dog, milk]"
    by (simp add: get_tasks_by_person_id_ordered_def example_defs)
  have c: "changed_on milk \<le> changed_on dog"
    by (simp add: milk_def dog_def)
  have h: "\<forall>t \<in> set (tasks example_db). \<not> (person_id t = Some ''p9'' \<and> active t)"
    by (simp add: example_defs)
  have r: "person_id rent \<noteq> Some ''p1''" by (simp add: rent_def)
  note own = list_by_owner_exact [of "''p1''" "tasks example_db" example_db,
      THEN conjunct2, THEN conjunct2, THEN conjunct2, THEN conjunct1]
  note none = list_by_owner_exact [of "''p9''" "tasks example_db" example_db,
      THEN conjunct2, THEN conjunct2, THEN conjunct2, THEN conjunct2, THEN conjunct2,
      THEN conjunct2, THEN mp, OF h]
  from own r have "rent \<notin> set (get_tasks_by_person_id_ordered ''p1'' (tasks example_db))"
    by blast
  moreover have "filter (\<lambda>t. person_id t = Some ''p9'' \<and> active t) (tasks example_db) = []"
    using h by (simp add: filter_empty_conv)
  ultimately show ?thesis using l c none by (simp only: simp_thms)
qed

section \<open>Creation\<close>

text \<open>
  A title that is a number passes both checks (\<^verbatim>\<open>str(5)\<close> is not blank) and then
  has no \<^verbatim>\<open>strip\<close> method: the view raises before it writes.
\<close>

lemma number_title_raises:
  "Tasks_post accept_all ''p1'' ''t9'' 50 (PInt 5) example_db
     = (Inl (AttributeError ''int''), example_db)"
  by (simp add: Tasks_post_def accept_all_def blank_def strip_def isspace_def)

text \<open>
  C3: a create request whose title is missing, empty or only whitespace fails with a
  validation error and the state is exactly what it was. Otherwise (the required-fields
  helper accepting the body) the persisted task carries the trimmed title, is not
  completed, is active and belongs to the acting person, and \<^verbatim>\<open>get_task_by_id\<close>
  right after returns that record.
\<close>

theorem create_task:
  "((ttl = PNone \<or> (\<exists>x. ttl = PStr x \<and> strip x = []))
      \<longrightarrow> (\<exists>m. Tasks_post vrf pid new_id now ttl s = (Inl (InputValidationError m), s)))
   \<and> (vrf [(''title'', PStr x)] = None \<and> strip x \<noteq> []
      \<longrightarrow> (let t = \<lparr>entity_id = new_id, active = True, changed_on = now,
                      person_id = Some pid, title = Some (strip x), completed = False\<rparr>;
               s' = snd (Tasks_post vrf pid new_id now (PStr x) s)
           in fst (Tasks_post vrf pid new_id now (PStr x) s)
                = Inr (Success (Some ''Task created successfully.'') (TaskPayload t))
              \<and> t \<in> set (tasks s')
              \<and> fst (get_task_by_id new_id s') = Some t))"
proof -
  have a: "\<exists>m. Tasks_post vrf pid new_id now ttl s = (Inl (InputValidationError m), s)"
    if "ttl = PNone \<or> (\<exists>x. ttl = PStr x \<and> strip x = [])"
    using that by (auto simp: Tasks_post_def blank_PStr blank_def split: option.splits)
  have b: "Tasks_post vrf pid new_id now (PStr x) s =
      (let t = \<lparr>entity_id = new_id, active = True, changed_on = now,
                 person_id = Some pid, title = Some (strip x), completed = False\<rparr>
       in (Inr (Success (Some ''Task created successfully.'') (TaskPayload t)),
           s\<lparr>tasks := t # filter (\<lambda>r. entity_id r \<noteq> new_id) (tasks s),
             calls := calls s @ [TaskSave new_id]\<rparr>))"
    if "vrf [(''title'', PStr x)] = None" "strip x \<noteq> []"
    using that by (simp add: Tasks_post_def blank_PStr save_task_def save_def Task_def Let_def)
  show ?thesis
    using a b by (auto simp: Let_def get_task_by_id_def get_one_def)
qed

theorem create_task_witness:
  "strip [] = [] \<and> Tasks_post accept_all ''p1'' ''t9'' 50 (PStr []) example_db
       = (Inl (InputValidationError '''title' cannot be empty.''), example_db)
   \<and> accept_all [(''title'', PStr ''  Buy milk  '')] = None \<and> strip ''  Buy milk  '' \<noteq> []
   \<and> fst (Tasks_post accept_all ''p1'' ''t9'' 50 (PStr ''  Buy milk  '') example_db)
       = Inr (Success (Some ''Task created successfully.'')
           (TaskPayload \<lparr>entity_id = ''t9'', active = True, changed_on = 50,
              person_id = Some ''p1'', title = Some ''Buy milk'', completed = False\<rparr>))
   \<and> fst (get_task_by_id ''t9''
        (snd (Tasks_post accept_all ''p1'' ''t9'' 50 (PStr ''  Buy milk  '') example_db)))
       = Some \<lparr>entity_id = ''t9'', active = True, changed_on = 50,
              person_id = Some ''p1'', title = Some ''Buy milk'', completed = False\<rparr>"
proof -
  have s0: "strip [] = []" by (simp add: strip_def)
  have s1: "strip ''  Buy milk  '' = ''Buy milk''" by (simp add: strip_def isspace_def)
  have v: "accept_all [(''title'', PStr ''  Buy milk  '')] = None" by (simp add: accept_all_def)
  have e: "Tasks_post accept_all ''p1'' ''t9'' 50 (PStr []) example_db
       = (Inl (InputValidationError '''title' cannot be empty.''), example_db)"
    by (simp add: Tasks_post_def accept_all_def blank_def)
  from create_task [of "PStr []" accept_all "''p1''" "''t9''" 50 example_db "''  Buy milk  ''"]
    s0 s1 v e
  show ?thesis by (simp add: Let_def)
qed

section \<open>Soft deletion\<close>

lemma TaskById_put_Inr_iff:
  "(\<exists>r. fst (TaskById_put tid pid now ttl cmp s) = Inr r) \<longleftrightarrow>
     (\<exists>t. get_one tid (tasks s) = Some t \<and> person_id t = Some pid)
     \<and> \<not> (ttl = PNone \<and> cmp = PNone)
     \<and> (ttl = PNone \<or> (\<exists>x. ttl = PStr x \<and> strip x \<noteq> []))"
  (is "?L \<longleftrightarrow> ?R")
proof
  assume ?R
  then obtain t where "get_one tid (tasks s) = Some t" "person_id t = Some pid"
    "\<not> (ttl = PNone \<and> cmp = PNone)" "ttl = PNone \<or> (\<exists>x. ttl = PStr x \<and> strip x \<noteq> [])"
    by blast
  from TaskById_put_success [OF this] show ?L by (simp add: Let_def)
next
  assume l: ?L
  show ?R
  proof (rule ccontr)
    assume n: "\<not> ?R"
    have "\<exists>e. fst (TaskById_put tid pid now ttl cmp s) = Inl e"
    proof (cases "get_one tid (tasks s)")
      case None
      then show ?thesis by (simp add: TaskById_put_def get_task_by_id_def)
    next
      case (Some t)
      with n show ?thesis
        by (cases ttl) (auto simp: TaskById_put_def get_task_by_id_def blank_PStr)
    qed
    with l show False by auto
  qed
qed

lemma Me_put_tasks: "tasks (snd (Me_put pid now fn ln s)) = tasks s"
  by (simp add: Me_put_def get_person_by_id_def save_person_def Let_def
      split: option.split sum.split prod.split)

lemma Me_get_tasks: "tasks (snd (Me_get pid s)) = tasks s"
  by (simp add: Me_get_def get_person_by_id_def split: option.split)

lemma TaskById_delete_tasks:
  "tasks (snd (TaskById_delete tid pid now s)) = tasks s \<or>
   (\<exists>u. tasks (snd (TaskById_delete tid pid now s))
          = u # filter (\<lambda>x. entity_id x \<noteq> entity_id u) (tasks s) \<and> \<not> active u)"
  by (simp add: TaskById_delete_def get_task_by_id_def delete_task_def save_task_def save_def Let_def
      split: option.split)

lemma Tasks_post_tasks:
  "tasks (snd (Tasks_post vrf pid new_id now ttl s)) = tasks s \<or>
   (\<exists>u. tasks (snd (Tasks_post vrf pid new_id now ttl s))
          = u # filter (\<lambda>x. entity_id x \<noteq> entity_id u) (tasks s) \<and> entity_id u = new_id)"
  by (simp add: Tasks_post_def save_task_def save_def Task_def Let_def
      split: option.split sum.split)

lemma TaskById_put_tasks:
  "tasks (snd (TaskById_put tid pid now ttl cmp s)) = tasks s \<or>
   (\<exists>u. tasks (snd (TaskById_put tid pid now ttl cmp s))
          = u # filter (\<lambda>x. entity_id x \<noteq> entity_id u) (tasks s)
        \<and> get_one (entity_id u) (tasks s) \<noteq> None)"
proof (cases "fst (TaskById_put tid pid now ttl cmp s)")
  case (Inl e)
  then show ?thesis by (simp add: TaskById_put_error)
next
  case (Inr r)
  then obtain t where t: "get_one tid (tasks s) = Some t" "person_id t = Some pid"
    and b: "\<not> (ttl = PNone \<and> cmp = PNone)" "ttl = PNone \<or> (\<exists>x. ttl = PStr x \<and> strip x \<noteq> [])"
    using TaskById_put_Inr_iff [of tid pid now ttl cmp s] by blast
  from t(1) have "entity_id t = tid" by (simp add: get_one_SomeD)
  with TaskById_put_success [OF t b, of now] t(1) show ?thesis
    by (simp add: Let_def)
qed

lemma dispatch_tasks:
  "tasks (snd (dispatch vrf r s)) = tasks s \<or>
   (\<exists>u. tasks (snd (dispatch vrf r s)) = u # filter (\<lambda>x. entity_id x \<noteq> entity_id u) (tasks s)
        \<and> (active u \<longrightarrow> generated_id r = Some (entity_id u) \<or> get_one (entity_id u) (tasks s) \<noteq> None))"
proof (cases r)
  case (GetTasks pid)
  then show ?thesis by (simp add: Tasks_get_eq)
next
  case (PostTask pid new_id now ttl)
  with Tasks_post_tasks [of vrf pid new_id now ttl s] show ?thesis by auto
next
  case (PutTask tid pid now ttl cmp)
  with TaskById_put_tasks [of tid pid now ttl cmp s] show ?thesis by auto
next
  case (DeleteTask tid pid now)
  with TaskById_delete_tasks [of tid pid now s] show ?thesis by auto
next
  case (GetMe pid)
  then show ?thesis by (simp add: Me_get_tasks)
next
  case (PutMe pid now fn ln)
  then show ?thesis by (simp add: Me_put_tasks)
qed

lemma dispatch_keeps_hidden:
  assumes "get_one tid (tasks s) = None" and "generated_id r \<noteq> Some tid"
  shows "get_one tid (tasks (snd (dispatch vrf r s))) = None"
proof -
  from dispatch_tasks [of vrf r s] consider "tasks (snd (dispatch vrf r s)) = tasks s"
    | u where "tasks (snd (dispatch vrf r s)) = u # filter (\<lambda>x. entity_id x \<noteq> entity_id u) (tasks s)"
      "active u \<longrightarrow> generated_id r = Some (entity_id u) \<or> get_one (entity_id u) (tasks s) \<noteq> None"
    by blast
  then show ?thesis
  proof cases
    case 1
    with assms show ?thesis by simp
  next
    case 2
    show ?thesis
    proof (cases "entity_id u = tid")
      case True
      with 2(2) assms have "\<not> active u" by auto
      with True 2(1) show ?thesis using get_one_upsert_same [of u "tasks s"] by simp
    next
      case False
      with 2(1) assms(1) show ?thesis using get_one_upsert_other [of tid u "tasks s"] by simp
    qed
  qed
qed

lemma dispatch_keeps_row:
  assumes "tid \<in> entity_id ` set (tasks s)"
  shows "tid \<in> entity_id ` set (tasks (snd (dispatch vrf r s)))"
proof -
  from dispatch_tasks [of vrf r s] consider "tasks (snd (dispatch vrf r s)) = tasks s"
    | u where "tasks (snd (dispatch vrf r s)) = u # filter (\<lambda>x. entity_id x \<noteq> entity_id u) (tasks s)"
    by blast
  then show ?thesis
  proof cases
    case 1
    with assms show ?thesis by simp
  next
    case 2
    from assms obtain x where "x \<in> set (tasks s)" "entity_id x = tid" by auto
    with 2 show ?thesis by (cases "entity_id u = tid") force+
  qed
qed

lemma serve_keeps_hidden:
  "get_one tid (tasks s) = None \<Longrightarrow> \<forall>r \<in> set rs. generated_id r \<noteq> Some tid \<Longrightarrow>
     get_one tid (tasks (serve vrf rs s)) = None"
  by (induction rs arbitrary: s) (simp_all add: dispatch_keeps_hidden)

lemma serve_keeps_row:
  "tid \<in> entity_id ` set (tasks s) \<Longrightarrow> tid \<in> entity_id ` set (tasks (serve vrf rs s))"
  by (induction rs arbitrary: s) (simp_all add: dispatch_keeps_row)

lemma hidden_not_listed:
  "get_one tid rows = None \<Longrightarrow> \<forall>r \<in> set (get_tasks_by_person_id_ordered p rows). entity_id r \<noteq> tid"
  by (auto simp: set_listing get_one_None_iff)

lemma delete_task_eq:
  "delete_task now t s =
     (t\<lparr>active := False, changed_on := now\<rparr>,
      s\<lparr>tasks := t\<lparr>active := False, changed_on := now\<rparr> # filter (\<lambda>r. entity_id r \<noteq> entity_id t) (tasks s),
        calls := calls s @ [TaskSave (entity_id t)]\<rparr>)"
  by (simp add: delete_task_def save_task_def save_def Let_def)

text \<open>
  C4: for every task, \<^verbatim>\<open>delete_task\<close> returns it with \<open>active\<close> false and stores that
  record: the row stays in the table (and every other row with it), only
  \<^verbatim>\<open>get_task_by_id\<close> and the listing of any person no longer show it. Whatever
  requests are served afterwards, a row with the task's identifier stays in the table,
  and the listing of no person shows the task again, as long as no later creation
  generates the identifier of the deleted task anew.
\<close>

theorem soft_delete_hides_task:
  "fst (delete_task now t s) = t\<lparr>active := False, changed_on := now\<rparr>
   \<and> t\<lparr>active := False, changed_on := now\<rparr> \<in> set (tasks (snd (delete_task now t s)))
   \<and> (\<forall>r \<in> set (tasks s). entity_id r \<noteq> entity_id t
         \<longrightarrow> r \<in> set (tasks (snd (delete_task now t s))))
   \<and> fst (get_task_by_id (entity_id t) (snd (delete_task now t s))) = None
   \<and> (\<forall>p. \<forall>r \<in> set (get_tasks_by_person_id_ordered p (tasks (snd (delete_task now t s)))).
          entity_id r \<noteq> entity_id t)
   \<and> entity_id t \<in> entity_id ` set (tasks (serve vrf rs (snd (delete_task now t s))))
   \<and> ((\<forall>r \<in> set rs. generated_id r \<noteq> Some (entity_id t)) \<longrightarrow>
        (\<forall>p. \<forall>r \<in> set (get_tasks_by_person_id_ordered p
                  (tasks (serve vrf rs (snd (delete_task now t s))))).
           entity_id r \<noteq> entity_id t))"
proof -
  let ?u = "t\<lparr>active := False, changed_on := now\<rparr>"
  let ?s' = "snd (delete_task now t s)"
  have rows: "tasks ?s' = ?u # filter (\<lambda>r. entity_id r \<noteq> entity_id t) (tasks s)"
    by (simp add: delete_task_eq)
  have hidden: "get_one (entity_id t) (tasks ?s') = None"
    unfolding rows using get_one_upsert_same [of ?u "tasks s"] by simp
  have present: "entity_id t \<in> entity_id ` set (tasks ?s')"
    unfolding rows by simp
  have c1: "fst (delete_task now t s) = ?u"
    by (simp add: delete_task_eq)
  have c2: "?u \<in> set (tasks ?s')"
    unfolding rows by simp
  have c3: "\<forall>r \<in> set (tasks s). entity_id r \<noteq> entity_id t \<longrightarrow> r \<in> set (tasks ?s')"
    unfolding rows by simp
  have c4: "fst (get_task_by_id (entity_id t) ?s') = None"
    using hidden by (simp add: get_task_by_id_def)
  have c5: "\<forall>p. \<forall>r \<in> set (get_tasks_by_person_id_ordered p (tasks ?s')). entity_id r \<noteq> entity_id t"
    using hidden_not_listed [OF hidden] by blast
  have c6: "entity_id t \<in> entity_id ` set (tasks (serve vrf rs ?s'))"
    using present by (rule serve_keeps_row)
  have c7: "\<forall>p. \<forall>r \<in> set (get_tasks_by_person_id_ordered p (tasks (serve vrf rs ?s'))).
          entity_id r \<noteq> entity_id t"
    if "\<forall>r \<in> set rs. generated_id r \<noteq> Some (entity_id t)"
    using hidden_not_listed [OF serve_keeps_hidden [OF hidden that]] by blast
  from c1 c2 c3 c4 c5 c6 c7 show ?thesis by blast
qed

theorem soft_delete_hides_task_witness:
  "map generated_id [PutTask ''t1'' ''p1'' 60 (PStr ''Buy oat milk'') (PBool True), GetTasks ''p1'']
     = [None, None]
   \<and> get_tasks_by_person_id_ordered ''p1'' (tasks (snd (delete_task 50 milk example_db))) = [dog]
   \<and> milk\<lparr>active := False, changed_on := 50\<rparr> \<in> set (tasks (snd (delete_task 50 milk example_db)))
   \<and> entity_id milk \<notin> entity_id ` set (get_tasks_by_person_id_ordered ''p1''
          (tasks (serve accept_all
             [PutTask ''t1'' ''p1'' 60 (PStr ''Buy oat milk'') (PBool True), GetTasks ''p1'']
             (snd (delete_task 50 milk example_db)))))"
proof -
  let ?rs = "[PutTask ''t1'' ''p1'' 60 (PStr ''Buy oat milk'') (PBool True), GetTasks ''p1'']"
  have h: "\<forall>r \<in> set ?rs. generated_id r \<noteq> Some (entity_id milk)"
    by simp
  have l: "get_tasks_by_person_id_ordered ''p1'' (tasks (snd (delete_task 50 milk example_db))) = [dog]"
    by (simp add: delete_task_eq get_tasks_by_person_id_ordered_def example_defs)
  note T = soft_delete_hides_task [of 50 milk example_db accept_all ?rs]
  note kept = T [THEN conjunct2, THEN conjunct1]
  note later = T [THEN conjunct2, THEN conjunct2, THEN conjunct2, THEN conjunct2, THEN conjunct2,
      THEN conjunct2, THEN mp, OF h, THEN spec, of "''p1''"]
  have g: "map generated_id ?rs = [None, None]" by simp
  let ?L = "get_tasks_by_person_id_ordered ''p1''
          (tasks (serve accept_all ?rs (snd (delete_task 50 milk example_db))))"
  have "entity_id milk \<notin> entity_id ` set ?L"
  proof
    assume "entity_id milk \<in> entity_id ` set ?L"
    then obtain r where e: "entity_id milk = entity_id r" and r: "r \<in> set ?L"
      by (rule imageE)
    from later r have "entity_id r \<noteq> entity_id milk" by (rule bspec)
    with e show False by (simp only: simp_thms)
  qed
  with g l kept show ?thesis by (simp only: simp_thms)
qed

section \<open>Outcomes of the updating views\<close>

lemma Me_put_Inr_iff:
  "(\<exists>r. fst (Me_put pid now fn ln s) = Inr r) \<longleftrightarrow>
     (\<exists>p. get_one pid (persons s) = Some p)
     \<and> \<not> (fn = PNone \<and> ln = PNone)
     \<and> (fn = PNone \<or> (\<exists>x. fn = PStr x \<and> strip x \<noteq> []))
     \<and> (ln = PNone \<or> (\<exists>x. ln = PStr x \<and> strip x \<noteq> []))"
  (is "?L \<longleftrightarrow> ?R")
proof
  assume ?R
  then obtain p where "get_one pid (persons s) = Some p" "\<not> (fn = PNone \<and> ln = PNone)"
    "fn = PNone \<or> (\<exists>x. fn = PStr x \<and> strip x \<noteq> [])"
    "ln = PNone \<or> (\<exists>x. ln = PStr x \<and> strip x \<noteq> [])"
    by blast
  from Me_put_success [OF this] show ?L by (simp add: Let_def)
next
  assume l: ?L
  show ?R
  proof (rule ccontr)
    assume n: "\<not> ?R"
    have "\<exists>e. fst (Me_put pid now fn ln s) = Inl e"
    proof (cases "get_one pid (persons s)")
      case None
      then show ?thesis by (simp add: Me_put_def get_person_by_id_def)
    next
      case (Some p)
      with n show ?thesis
        by (cases fn; cases ln) (auto simp: Me_put_def get_person_by_id_def blank_PStr)
    qed
    with l show False by auto
  qed
qed

lemma Me_put_error:
  assumes "fst (Me_put pid now fn ln s) = Inl e"
  shows "persons (snd (Me_put pid now fn ln s)) = persons s"
proof (cases "get_one pid (persons s)")
  case None
  then show ?thesis
    by (simp add: Me_put_def get_person_by_id_def)
next
  case (Some p)
  show ?thesis
  proof (cases "\<not> (fn = PNone \<and> ln = PNone)
      \<and> (fn = PNone \<or> (\<exists>x. fn = PStr x \<and> strip x \<noteq> []))
      \<and> (ln = PNone \<or> (\<exists>x. ln = PStr x \<and> strip x \<noteq> []))")
    case True
    with Some assms show ?thesis
      by (simp add: Me_put_success Let_def)
  next
    case False
    with Some show ?thesis
      by (cases fn; cases ln) (auto simp: Me_put_def get_person_by_id_def blank_PStr)
  qed
qed

lemma Tasks_post_error:
  "fst (Tasks_post vrf pid new_id now ttl s) = Inl e \<Longrightarrow> Tasks_post vrf pid new_id now ttl s = (Inl e, s)"
  by (auto simp: Tasks_post_def save_task_def save_def Let_def split: option.splits sum.splits if_splits)

lemma TaskById_delete_error:
  "fst (TaskById_delete tid pid now s) = Inl e \<Longrightarrow>
     tasks (snd (TaskById_delete tid pid now s)) = tasks s
     \<and> persons (snd (TaskById_delete tid pid now s)) = persons s"
  by (auto simp: TaskById_delete_def get_task_by_id_def delete_task_def save_task_def save_def Let_def
      split: option.splits if_splits)

lemma Tasks_post_Inr:
  assumes "fst (Tasks_post vrf pid new_id now ttl s) = Inr r"
  shows "\<exists>x. ttl = PStr x \<and> strip x \<noteq> [] \<and> vrf [(''title'', ttl)] = None
     \<and> Tasks_post vrf pid new_id now ttl s =
         (Inr (Success (Some ''Task created successfully.'')
            (TaskPayload (fst (save now (Task new_id now (Some pid) (Some (strip x)) False) (tasks s))))),
          s\<lparr>tasks := snd (save now (Task new_id now (Some pid) (Some (strip x)) False) (tasks s)),
            calls := calls s @ [TaskSave new_id]\<rparr>)"
proof (cases ttl)
  case (PStr x)
  with assms show ?thesis
    by (auto simp: Tasks_post_def save_task_def Let_def blank_PStr Task_def
        split: option.splits if_splits prod.splits)
qed (use assms in \<open>auto simp: Tasks_post_def split: option.splits if_splits\<close>)

section \<open>Updating a task\<close>

text \<open>
  C5: a task update whose title is the empty string or only whitespace fails with the
  empty-title validation error, an update with neither title nor completed fails with
  the no-fields validation error, and an update that supplies only \<open>completed = false\<close>
  for a task the acting person owns succeeds: \<open>False\<close> is not taken for an absent
  field, and the stored task has \<open>completed\<close> false with its other fields as they were.
\<close>

theorem update_validation:
  "(strip x = [] \<longrightarrow>
      TaskById_put tid pid now (PStr x) cmp s =
        (Inl (InputValidationError '''title' cannot be empty if provided.''), s))
   \<and> TaskById_put tid pid now PNone PNone s =
        (Inl (InputValidationError ''At least one of 'title' or 'completed' must be provided.''), s)
   \<and> (get_one tid (tasks s) = Some t \<and> person_id t = Some pid \<longrightarrow>
        fst (TaskById_put tid pid now PNone (PBool False) s) =
          Inr (Success (Some ''Task updated successfully.'')
                (TaskPayload (t\<lparr>changed_on := now, completed := False\<rparr>)))
        \<and> get_one tid (tasks (snd (TaskById_put tid pid now PNone (PBool False) s)))
            = Some (t\<lparr>changed_on := now, completed := False\<rparr>))"
proof -
  have a: "TaskById_put tid pid now (PStr x) cmp s =
        (Inl (InputValidationError '''title' cannot be empty if provided.''), s)"
    if "strip x = []"
    using that by (simp add: TaskById_put_def blank_PStr)
  have b: "TaskById_put tid pid now PNone PNone s =
        (Inl (InputValidationError ''At least one of 'title' or 'completed' must be provided.''), s)"
    by (simp add: TaskById_put_def)
  have c: "fst (TaskById_put tid pid now PNone (PBool False) s) =
          Inr (Success (Some ''Task updated successfully.'')
                (TaskPayload (t\<lparr>changed_on := now, completed := False\<rparr>)))
        \<and> get_one tid (tasks (snd (TaskById_put tid pid now PNone (PBool False) s)))
            = Some (t\<lparr>changed_on := now, completed := False\<rparr>)"
    if t: "get_one tid (tasks s) = Some t" "person_id t = Some pid"
  proof -
    from t(1) have i: "entity_id t = tid" "active t" by (simp_all add: get_one_SomeD)
    have "TaskById_put tid pid now PNone (PBool False) s =
      (Inr (Success (Some ''Task updated successfully.'')
             (TaskPayload (t\<lparr>changed_on := now, completed := False\<rparr>))),
       s\<lparr>tasks := t\<lparr>changed_on := now, completed := False\<rparr>
                  # filter (\<lambda>r. entity_id r \<noteq> tid) (tasks s),
         calls := calls s @ [TaskGetOne tid, TaskSave tid, TaskGetOne tid]\<rparr>)"
      using TaskById_put_success [OF t, of PNone "PBool False" now] by (simp add: Let_def)
    with i show ?thesis by (simp add: get_one_def)
  qed
  from a b c show ?thesis by blast
qed

theorem update_validation_witness:
  "strip ''   '' = []
   \<and> TaskById_put ''t1'' ''p1'' 50 (PStr ''   '') PNone example_db =
        (Inl (InputValidationError '''title' cannot be empty if provided.''), example_db)
   \<and> get_one ''t1'' (tasks example_db) = Some milk \<and> person_id milk = Some ''p1''
   \<and> completed milk
   \<and> fst (TaskById_put ''t1'' ''p1'' 50 PNone (PBool False) example_db) =
          Inr (Success (Some ''Task updated successfully.'')
                (TaskPayload (milk\<lparr>changed_on := 50, completed := False\<rparr>)))"
proof -
  have h0: "strip ''   '' = []" by (simp add: strip_def isspace_def)
  have h1: "get_one ''t1'' (tasks example_db) = Some milk" by (simp add: get_one_def example_defs)
  have h2: "person_id milk = Some ''p1''" by (simp add: milk_def)
  have h3: "completed milk" by (simp add: milk_def)
  note T = update_validation [of "''   ''" "''t1''" "''p1''" 50 PNone example_db milk]
  note blank_title = T [THEN conjunct1, THEN mp, OF h0]
  note falsy = T [THEN conjunct2, THEN conjunct2, THEN mp, OF conjI, OF h1 h2, THEN conjunct1]
  from h0 h1 h2 h3 blank_title falsy show ?thesis by (simp only: simp_thms)
qed

text \<open>
  C10: a task update that supplies a completed value other than null, for a task the
  acting person owns and with a title that is absent or a non-blank string, succeeds and
  stores \<^verbatim>\<open>bool(completed)\<close>: a non-empty string or a non-zero number sets
  \<open>completed\<close> to true, and the stored field is a \<open>bool\<close> by its type.
\<close>

theorem completed_coerced:
  "(cmp \<noteq> PNone \<and> get_one tid (tasks s) = Some t \<and> person_id t = Some pid
      \<and> (ttl = PNone \<or> (\<exists>x. ttl = PStr x \<and> strip x \<noteq> []))
     \<longrightarrow> (\<exists>u. fst (TaskById_put tid pid now ttl cmp s)
                 = Inr (Success (Some ''Task updated successfully.'') (TaskPayload u))
              \<and> get_one tid (tasks (snd (TaskById_put tid pid now ttl cmp s))) = Some u
              \<and> completed u = truthy cmp))
   \<and> (x \<noteq> [] \<longrightarrow> truthy (PStr x))
   \<and> (i \<noteq> 0 \<longrightarrow> truthy (PInt i))
   \<and> truthy (PBool b) = b"
proof -
  have a: "\<exists>u. fst (TaskById_put tid pid now ttl cmp s)
                 = Inr (Success (Some ''Task updated successfully.'') (TaskPayload u))
              \<and> get_one tid (tasks (snd (TaskById_put tid pid now ttl cmp s))) = Some u
              \<and> completed u = truthy cmp"
    if h: "cmp \<noteq> PNone" "get_one tid (tasks s) = Some t" "person_id t = Some pid"
      "ttl = PNone \<or> (\<exists>x. ttl = PStr x \<and> strip x \<noteq> [])"
  proof -
    from h(2) have i: "entity_id t = tid" "active t" by (simp_all add: get_one_SomeD)
    from h(1) have n: "\<not> (ttl = PNone \<and> cmp = PNone)" by simp
    from TaskById_put_success [OF h(2,3) n h(4), of now] h(1) i show ?thesis
      by (simp add: Let_def get_one_def)
  qed
  then show ?thesis by simp
qed

theorem completed_coerced_witness:
  "PStr ''false'' \<noteq> PNone \<and> get_one ''t2'' (tasks example_db) = Some dog
   \<and> person_id dog = Some ''p1'' \<and> \<not> completed dog
   \<and> fst (TaskById_put ''t2'' ''p1'' 50 PNone (PStr ''false'') example_db)
        = Inr (Success (Some ''Task updated successfully.'')
            (TaskPayload (dog\<lparr>changed_on := 50, completed := True\<rparr>)))
   \<and> (\<exists>u. get_one ''t2'' (tasks (snd (TaskById_put ''t2'' ''p1'' 50 PNone (PInt 7) example_db)))
            = Some u \<and> completed u)"
proof -
  have h1: "get_one ''t2'' (tasks example_db) = Some dog" by (simp add: get_one_def example_defs)
  have h2: "person_id dog = Some ''p1''" by (simp add: dog_def)
  have h3: "\<not> completed dog" by (simp add: dog_def)
  have e: "fst (TaskById_put ''t2'' ''p1'' 50 PNone (PStr ''false'') example_db)
        = Inr (Success (Some ''Task updated successfully.'')
            (TaskPayload (dog\<lparr>changed_on := 50, completed := True\<rparr>)))"
    by (simp add: TaskById_put_def get_task_by_id_def get_one_def save_task_def save_def
        example_defs Let_def)
  have p: "PInt 7 \<noteq> PNone \<and> get_one ''t2'' (tasks example_db) = Some dog
      \<and> person_id dog = Some ''p1'' \<and> (PNone = PNone \<or> (\<exists>x. PNone = PStr x \<and> strip x \<noteq> []))"
    using h1 h2 by simp
  from completed_coerced [of "PInt 7" "''t2''" example_db dog "''p1''" PNone 50,
      THEN conjunct1, THEN mp, OF p]
  have "\<exists>u. get_one ''t2'' (tasks (snd (TaskById_put ''t2'' ''p1'' 50 PNone (PInt 7) example_db)))
            = Some u \<and> completed u"
    by auto
  with h1 h2 h3 e show ?thesis by simp
qed

section \<open>Updating the profile\<close>

text \<open>
  C6 does not hold of \<^verbatim>\<open>Me.put\<close>: its first check tests the truth value of the two
  fields (\<^verbatim>\<open>not first_name and not last_name\<close>) where \<^verbatim>\<open>TaskById.put\<close> tests
  \<^verbatim>\<open>is None\<close>. A body whose only field is the empty string is therefore answered
  with the no-fields message, while the same body with a whitespace-only string, and the
  corresponding task update, are answered with the empty-field message.
\<close>

theorem empty_name_alone_reported_absent:
  "Me_put pid now (PStr []) PNone s =
     (Inl (InputValidationError ''At least one of 'first_name' or 'last_name' must be provided.''), s)
   \<and> Me_put pid now PNone (PStr []) s =
     (Inl (InputValidationError ''At least one of 'first_name' or 'last_name' must be provided.''), s)
   \<and> Me_put pid now (PStr []) PNone s \<noteq>
     (Inl (InputValidationError '''first_name' cannot be empty if provided.''), s)
   \<and> Me_put pid now (PStr ''   '') PNone s =
     (Inl (InputValidationError '''first_name' cannot be empty if provided.''), s)
   \<and> TaskById_put tid pid now (PStr []) PNone s =
     (Inl (InputValidationError '''title' cannot be empty if provided.''), s)"
  by (simp add: Me_put_def TaskById_put_def blank_def strip_def isspace_def)

text \<open>
  C7: a profile update with neither name, or with a supplied name that is empty after
  trimming, fails with a validation error and changes nothing. With at least one name
  supplied, each supplied name a non-blank string, and the person found, the update
  succeeds: the supplied names are stored trimmed and a name that was not supplied keeps
  its stored value.
\<close>

theorem update_profile:
  "((fn = PNone \<and> ln = PNone) \<or> (\<exists>x. fn = PStr x \<and> strip x = [])
       \<or> (\<exists>x. ln = PStr x \<and> strip x = [])
      \<longrightarrow> (\<exists>m. Me_put pid now fn ln s = (Inl (InputValidationError m), s)))
   \<and> (get_one pid (persons s) = Some p \<and> \<not> (fn = PNone \<and> ln = PNone)
        \<and> (fn = PNone \<or> (\<exists>x. fn = PStr x \<and> strip x \<noteq> []))
        \<and> (ln = PNone \<or> (\<exists>x. ln = PStr x \<and> strip x \<noteq> []))
      \<longrightarrow> (let q = p\<lparr>changed_on := now,
                      first_name := (case fn of PStr x \<Rightarrow> Some (strip x) | _ \<Rightarrow> first_name p),
                      last_name := (case ln of PStr x \<Rightarrow> Some (strip x) | _ \<Rightarrow> last_name p)\<rparr>
           in fst (Me_put pid now fn ln s)
                = Inr (Success (Some ''Name updated successfully.'') (PersonPayload (Some q)))
              \<and> get_one pid (persons (snd (Me_put pid now fn ln s))) = Some q))"
proof -
  have a: "\<exists>m. Me_put pid now fn ln s = (Inl (InputValidationError m), s)"
    if "(fn = PNone \<and> ln = PNone) \<or> (\<exists>x. fn = PStr x \<and> strip x = [])
       \<or> (\<exists>x. ln = PStr x \<and> strip x = [])"
    using that by (auto simp: Me_put_def blank_PStr)
  have b: "(let q = p\<lparr>changed_on := now,
                      first_name := (case fn of PStr x \<Rightarrow> Some (strip x) | _ \<Rightarrow> first_name p),
                      last_name := (case ln of PStr x \<Rightarrow> Some (strip x) | _ \<Rightarrow> last_name p)\<rparr>
           in fst (Me_put pid now fn ln s)
                = Inr (Success (Some ''Name updated successfully.'') (PersonPayload (Some q)))
              \<and> get_one pid (persons (snd (Me_put pid now fn ln s))) = Some q)"
    if h: "get_one pid (persons s) = Some p" "\<not> (fn = PNone \<and> ln = PNone)"
        "fn = PNone \<or> (\<exists>x. fn = PStr x \<and> strip x \<noteq> [])"
        "ln = PNone \<or> (\<exists>x. ln = PStr x \<and> strip x \<noteq> [])"
  proof -
    from h(1) have i: "entity_id p = pid" "active p" by (simp_all add: get_one_SomeD)
    with Me_put_success [OF h, of now] show ?thesis
      by (simp add: Let_def get_one_def)
  qed
  from a b show ?thesis by blast
qed

theorem update_profile_witness:
  "Me_put ''p1'' 50 PNone PNone example_db =
     (Inl (InputValidationError ''At least one of 'first_name' or 'last_name' must be provided.''),
      example_db)
   \<and> get_one ''p1'' (persons example_db) = Some ada
   \<and> fst (Me_put ''p1'' 50 (PStr ''  Augusta '') PNone example_db)
       = Inr (Success (Some ''Name updated successfully.'')
           (PersonPayload (Some (ada\<lparr>changed_on := 50, first_name := Some ''Augusta''\<rparr>))))
   \<and> last_name (ada\<lparr>changed_on := 50, first_name := Some ''Augusta''\<rparr>) = last_name ada"
proof -
  have h1: "get_one ''p1'' (persons example_db) = Some ada" by (simp add: get_one_def example_defs)
  have h2: "\<not> (PStr ''  Augusta '' = PNone \<and> PNone = PNone)" by simp
  have s1: "strip ''  Augusta '' = ''Augusta''" by (simp add: strip_def isspace_def)
  then have h3: "PStr ''  Augusta '' = PNone \<or> (\<exists>x. PStr ''  Augusta '' = PStr x \<and> strip x \<noteq> [])"
    by simp
  have h4: "PNone = PNone \<or> (\<exists>x. PNone = PStr x \<and> strip x \<noteq> [])" by simp
  have e: "Me_put ''p1'' 50 PNone PNone example_db =
     (Inl (InputValidationError ''At least one of 'first_name' or 'last_name' must be provided.''),
      example_db)"
    by (simp add: Me_put_def)
  note T = update_profile [of "PStr ''  Augusta ''" PNone "''p1''" 50 example_db ada]
  note N = update_profile [of PNone PNone "''p1''" 50 example_db ada, THEN conjunct1]
  from N have n: "\<exists>m. Me_put ''p1'' 50 PNone PNone example_db
      = (Inl (InputValidationError m), example_db)"
    by simp
  from T [THEN conjunct2] h1 h2 h3 h4
  have "fst (Me_put ''p1'' 50 (PStr ''  Augusta '') PNone example_db)
       = Inr (Success (Some ''Name updated successfully.'')
           (PersonPayload (Some (ada\<lparr>changed_on := 50, first_name := Some ''Augusta''\<rparr>))))"
    by (simp add: Let_def s1)
  with n e h1 show ?thesis by simp
qed

section \<open>Reading back after a write\<close>

text \<open>
  C8, as the spec states it, fails for creation: \<^verbatim>\<open>Tasks.post\<close> answers with the
  entity that \<^verbatim>\<open>save_task\<close> returned; the only repository call of a successful
  creation is that save, and no read by identifier follows it.
\<close>

theorem create_returns_saved_without_refetch_counterexample:
  "fst (Tasks_post accept_all ''p1'' ''t9'' 50 (PStr ''Buy milk'') example_db)
     = Inr (Success (Some ''Task created successfully.'')
         (TaskPayload \<lparr>entity_id = ''t9'', active = True, changed_on = 50,
            person_id = Some ''p1'', title = Some ''Buy milk'', completed = False\<rparr>))
   \<and> calls (snd (Tasks_post accept_all ''p1'' ''t9'' 50 (PStr ''Buy milk'') example_db))
       = [TaskSave ''t9'']
   \<and> TaskGetOne ''t9''
       \<notin> set (calls (snd (Tasks_post accept_all ''p1'' ''t9'' 50 (PStr ''Buy milk'') example_db)))"
  by (simp add: Tasks_post_def accept_all_def blank_def strip_def isspace_def Task_def
      save_task_def save_def example_db_def Let_def)

text \<open>
  C8, amended: every successful task update and profile update ends with a read by
  identifier made after the save, and the response carries the record that read
  returned; a successful creation makes the save its only repository call and answers
  with the entity the save returned.
\<close>

theorem refetch_after_update:
  "(fst (TaskById_put tid pid now ttl cmp s) = Inr (Success m (TaskPayload u)) \<longrightarrow>
      calls (snd (TaskById_put tid pid now ttl cmp s))
        = calls s @ [TaskGetOne tid, TaskSave tid, TaskGetOne tid]
      \<and> get_one tid (tasks (snd (TaskById_put tid pid now ttl cmp s))) = Some u)
   \<and> (fst (Me_put pid now fn ln s) = Inr (Success m' (PersonPayload q)) \<longrightarrow>
      calls (snd (Me_put pid now fn ln s))
        = calls s @ [PersonGetOne pid, PersonSave pid, PersonGetOne pid]
      \<and> get_one pid (persons (snd (Me_put pid now fn ln s))) = q)
   \<and> (fst (Tasks_post vrf pid new_id now ttl' s) = Inr (Success m'' (TaskPayload u')) \<longrightarrow>
      calls (snd (Tasks_post vrf pid new_id now ttl' s)) = calls s @ [TaskSave new_id]
      \<and> (\<exists>x. ttl' = PStr x
            \<and> u' = fst (save now (Task new_id now (Some pid) (Some (strip x)) False) (tasks s))))"
proof -
  have a: "calls (snd (TaskById_put tid pid now ttl cmp s))
        = calls s @ [TaskGetOne tid, TaskSave tid, TaskGetOne tid]
      \<and> get_one tid (tasks (snd (TaskById_put tid pid now ttl cmp s))) = Some u"
    if r: "fst (TaskById_put tid pid now ttl cmp s) = Inr (Success m (TaskPayload u))"
  proof -
    from r obtain t where t: "get_one tid (tasks s) = Some t" "person_id t = Some pid"
      and b: "\<not> (ttl = PNone \<and> cmp = PNone)" "ttl = PNone \<or> (\<exists>x. ttl = PStr x \<and> strip x \<noteq> [])"
      using TaskById_put_Inr_iff [of tid pid now ttl cmp s] by blast
    from t(1) have i: "entity_id t = tid" "active t" by (simp_all add: get_one_SomeD)
    from TaskById_put_success [OF t b, of now] r i show ?thesis
      by (auto simp: Let_def get_one_def)
  qed
  have b: "calls (snd (Me_put pid now fn ln s))
        = calls s @ [PersonGetOne pid, PersonSave pid, PersonGetOne pid]
      \<and> get_one pid (persons (snd (Me_put pid now fn ln s))) = q"
    if r: "fst (Me_put pid now fn ln s) = Inr (Success m' (PersonPayload q))"
  proof -
    from r obtain p where p: "get_one pid (persons s) = Some p" "\<not> (fn = PNone \<and> ln = PNone)"
      "fn = PNone \<or> (\<exists>x. fn = PStr x \<and> strip x \<noteq> [])"
      "ln = PNone \<or> (\<exists>x. ln = PStr x \<and> strip x \<noteq> [])"
      using Me_put_Inr_iff [of pid now fn ln s] by blast
    from p(1) have i: "entity_id p = pid" "active p" by (simp_all add: get_one_SomeD)
    from Me_put_success [OF p, of now] r i show ?thesis
      by (auto simp: Let_def get_one_def)
  qed
  have c: "calls (snd (Tasks_post vrf pid new_id now ttl' s)) = calls s @ [TaskSave new_id]
      \<and> (\<exists>x. ttl' = PStr x
            \<and> u' = fst (save now (Task new_id now (Some pid) (Some (strip x)) False) (tasks s)))"
    if r: "fst (Tasks_post vrf pid new_id now ttl' s) = Inr (Success m'' (TaskPayload u'))"
    using Tasks_post_Inr [OF r] r by auto
  from a b c show ?thesis by blast
qed

theorem refetch_after_update_witness:
  "fst (TaskById_put ''t1'' ''p1'' 50 (PStr '' Buy oat milk '') PNone example_db)
     = Inr (Success (Some ''Task updated successfully.'')
         (TaskPayload (milk\<lparr>changed_on := 50, title := Some ''Buy oat milk''\<rparr>)))
   \<and> calls (snd (TaskById_put ''t1'' ''p1'' 50 (PStr '' Buy oat milk '') PNone example_db))
       = [TaskGetOne ''t1'', TaskSave ''t1'', TaskGetOne ''t1'']
   \<and> fst (Me_put ''p1'' 50 PNone (PStr ''King'') example_db)
     = Inr (Success (Some ''Name updated successfully.'')
         (PersonPayload (Some (ada\<lparr>changed_on := 50, last_name := Some ''King''\<rparr>))))
   \<and> calls (snd (Me_put ''p1'' 50 PNone (PStr ''King'') example_db))
       = [PersonGetOne ''p1'', PersonSave ''p1'', PersonGetOne ''p1'']
   \<and> fst (Tasks_post accept_all ''p1'' ''t9'' 50 (PStr ''Buy milk'') example_db)
     = Inr (Success (Some ''Task created successfully.'')
         (TaskPayload \<lparr>entity_id = ''t9'', active = True, changed_on = 50,
            person_id = Some ''p1'', title = Some ''Buy milk'', completed = False\<rparr>))
   \<and> calls (snd (Tasks_post accept_all ''p1'' ''t9'' 50 (PStr ''Buy milk'') example_db))
       = [TaskSave ''t9'']"
proof -
  have h1: "fst (TaskById_put ''t1'' ''p1'' 50 (PStr '' Buy oat milk '') PNone example_db)
     = Inr (Success (Some ''Task updated successfully.'')
         (TaskPayload (milk\<lparr>changed_on := 50, title := Some ''Buy oat milk''\<rparr>)))"
    by (simp add: TaskById_put_def blank_def strip_def isspace_def get_task_by_id_def get_one_def
        save_task_def save_def example_defs Let_def)
  have h2: "fst (Me_put ''p1'' 50 PNone (PStr ''King'') example_db)
     = Inr (Success (Some ''Name updated successfully.'')
         (PersonPayload (Some (ada\<lparr>changed_on := 50, last_name := Some ''King''\<rparr>))))"
    by (simp add: Me_put_def blank_def strip_def isspace_def get_person_by_id_def get_one_def
        save_person_def save_def example_defs Let_def)
  have h3: "fst (Tasks_post accept_all ''p1'' ''t9'' 50 (PStr ''Buy milk'') example_db)
     = Inr (Success (Some ''Task created successfully.'')
         (TaskPayload \<lparr>entity_id = ''t9'', active = True, changed_on = 50,
            person_id = Some ''p1'', title = Some ''Buy milk'', completed = False\<rparr>))"
    by (simp add: Tasks_post_def accept_all_def blank_def strip_def isspace_def Task_def
        save_task_def save_def example_db_def Let_def)
  have c: "calls example_db = []" by (simp add: example_db_def)
  note T = refetch_after_update [of "''t1''" "''p1''" 50 "PStr '' Buy oat milk ''" PNone example_db
      "Some ''Task updated successfully.''" "milk\<lparr>changed_on := 50, title := Some ''Buy oat milk''\<rparr>"
      PNone "PStr ''King''" "Some ''Name updated successfully.''"
      "Some (ada\<lparr>changed_on := 50, last_name := Some ''King''\<rparr>)"
      accept_all "''t9''" "PStr ''Buy milk''" "Some ''Task created successfully.''"
      "\<lparr>entity_id = ''t9'', active = True, changed_on = 50,
            person_id = Some ''p1'', title = Some ''Buy milk'', completed = False\<rparr>"]
  note t1 = T [THEN conjunct1, THEN mp, OF h1, THEN conjunct1]
  note t2 = T [THEN conjunct2, THEN conjunct1, THEN mp, OF h2, THEN conjunct1]
  note t3 = T [THEN conjunct2, THEN conjunct2, THEN mp, OF h3, THEN conjunct1]
  from h1 h2 h3 t1 t2 t3 c show ?thesis by simp
qed

section \<open>Failed requests write nothing\<close>

text \<open>
  C9: when a creation, a task update or a profile update fails validation (no field
  supplied, or a supplied text field empty or only whitespace, or the required-fields
  helper rejecting the body) the state after the request is the state before it. More
  generally, whenever one of the four writing views answers with an error, the task
  table and the person table are what they were.
\<close>

theorem failed_validation_writes_nothing:
  "((ttl = PNone \<or> (\<exists>x. ttl = PStr x \<and> strip x = []) \<or> vrf [(''title'', ttl)] \<noteq> None)
      \<longrightarrow> (\<exists>m. Tasks_post vrf pid new_id now ttl s = (Inl (InputValidationError m), s)))
   \<and> (((ttl = PNone \<and> cmp = PNone) \<or> (\<exists>x. ttl = PStr x \<and> strip x = []))
      \<longrightarrow> (\<exists>m. TaskById_put tid pid now ttl cmp s = (Inl (InputValidationError m), s)))
   \<and> (((fn = PNone \<and> ln = PNone) \<or> (\<exists>x. fn = PStr x \<and> strip x = [])
          \<or> (\<exists>x. ln = PStr x \<and> strip x = []))
      \<longrightarrow> (\<exists>m. Me_put pid now fn ln s = (Inl (InputValidationError m), s)))
   \<and> (fst (Tasks_post vrf pid new_id now ttl s) = Inl e
      \<longrightarrow> snd (Tasks_post vrf pid new_id now ttl s) = s)
   \<and> (fst (TaskById_put tid pid now ttl cmp s) = Inl e
      \<longrightarrow> tasks (snd (TaskById_put tid pid now ttl cmp s)) = tasks s
        \<and> persons (snd (TaskById_put tid pid now ttl cmp s)) = persons s)
   \<and> (fst (TaskById_delete tid pid now s) = Inl e
      \<longrightarrow> tasks (snd (TaskById_delete tid pid now s)) = tasks s
        \<and> persons (snd (TaskById_delete tid pid now s)) = persons s)
   \<and> (fst (Me_put pid now fn ln s) = Inl e
      \<longrightarrow> tasks (snd (Me_put pid now fn ln s)) = tasks s
        \<and> persons (snd (Me_put pid now fn ln s)) = persons s)"
proof -
  have a: "\<exists>m. Tasks_post vrf pid new_id now ttl s = (Inl (InputValidationError m), s)"
    if "ttl = PNone \<or> (\<exists>x. ttl = PStr x \<and> strip x = []) \<or> vrf [(''title'', ttl)] \<noteq> None"
    using that by (auto simp: Tasks_post_def blank_PStr blank_def split: option.splits)
  have b: "\<exists>m. TaskById_put tid pid now ttl cmp s = (Inl (InputValidationError m), s)"
    if "(ttl = PNone \<and> cmp = PNone) \<or> (\<exists>x. ttl = PStr x \<and> strip x = [])"
    using that by (auto simp: TaskById_put_def blank_PStr)
  have c: "\<exists>m. Me_put pid now fn ln s = (Inl (InputValidationError m), s)"
    if "(fn = PNone \<and> ln = PNone) \<or> (\<exists>x. fn = PStr x \<and> strip x = [])
          \<or> (\<exists>x. ln = PStr x \<and> strip x = [])"
    using that by (auto simp: Me_put_def blank_PStr)
  have d: "snd (Tasks_post vrf pid new_id now ttl s) = s"
    if "fst (Tasks_post vrf pid new_id now ttl s) = Inl e"
    using Tasks_post_error [OF that] by simp
  have f: "tasks (snd (Me_put pid now fn ln s)) = tasks s
        \<and> persons (snd (Me_put pid now fn ln s)) = persons s"
    if "fst (Me_put pid now fn ln s) = Inl e"
    using Me_put_error [OF that] by (simp add: Me_put_tasks)
  from a b c d f TaskById_put_error [of tid pid now ttl cmp s e]
    TaskById_delete_error [of tid pid now s e]
  show ?thesis by blast
qed

theorem failed_validation_writes_nothing_witness:
  "Tasks_post accept_all ''p1'' ''t9'' 50 (PStr ''   '') example_db
     = (Inl (InputValidationError '''title' cannot be empty.''), example_db)
   \<and> TaskById_put ''t1'' ''p1'' 50 (PStr ''   '') (PBool True) example_db
     = (Inl (InputValidationError '''title' cannot be empty if provided.''), example_db)
   \<and> Me_put ''p1'' 50 (PStr ''Ada'') (PStr ''   '') example_db
     = (Inl (InputValidationError '''last_name' cannot be empty if provided.''), example_db)
   \<and> fst (TaskById_delete ''t0'' ''p1'' 50 example_db) = Inl (InputValidationError ''Task not found.'')
   \<and> tasks (snd (TaskById_delete ''t0'' ''p1'' 50 example_db)) = tasks example_db
   \<and> tasks (snd (TaskById_put ''t1'' ''p1'' 50 (PStr ''   '') (PBool True) example_db))
       = tasks example_db
   \<and> persons (snd (Me_put ''p1'' 50 (PStr ''Ada'') (PStr ''   '') example_db)) = persons example_db
   \<and> snd (Tasks_post accept_all ''p1'' ''t9'' 50 (PStr ''   '') example_db) = example_db"
proof -
  have s0: "strip ''   '' = []" by (simp add: strip_def isspace_def)
  have e1: "Tasks_post accept_all ''p1'' ''t9'' 50 (PStr ''   '') example_db
     = (Inl (InputValidationError '''title' cannot be empty.''), example_db)"
    by (simp add: Tasks_post_def accept_all_def blank_PStr s0)
  have e2: "TaskById_put ''t1'' ''p1'' 50 (PStr ''   '') (PBool True) example_db
     = (Inl (InputValidationError '''title' cannot be empty if provided.''), example_db)"
    by (simp add: TaskById_put_def blank_PStr s0)
  have e3: "Me_put ''p1'' 50 (PStr ''Ada'') (PStr ''   '') example_db
     = (Inl (InputValidationError '''last_name' cannot be empty if provided.''), example_db)"
    by (simp add: Me_put_def blank_def strip_def isspace_def)
  have e4: "fst (TaskById_delete ''t0'' ''p1'' 50 example_db)
      = Inl (InputValidationError ''Task not found.'')"
    by (simp add: TaskById_delete_def get_task_by_id_def get_one_def example_defs)
  have h1: "PStr ''   '' = PNone \<or> (\<exists>x. PStr ''   '' = PStr x \<and> strip x = [])
      \<or> accept_all [(''title'', PStr ''   '')] \<noteq> None"
    by (simp add: s0)
  have h2: "(PStr ''   '' = PNone \<and> PBool True = PNone) \<or> (\<exists>x. PStr ''   '' = PStr x \<and> strip x = [])"
    by (simp add: s0)
  have h3: "(PStr ''Ada'' = PNone \<and> PStr ''   '' = PNone) \<or> (\<exists>x. PStr ''Ada'' = PStr x \<and> strip x = [])
      \<or> (\<exists>x. PStr ''   '' = PStr x \<and> strip x = [])"
    by (simp add: s0)
  note T = failed_validation_writes_nothing [where ttl = "PStr ''   ''" and vrf = accept_all
      and pid = "''p1''" and new_id = "''t9''" and now = 50 and s = example_db
      and cmp = "PBool True" and fn = "PStr ''Ada''" and ln = "PStr ''   ''"]
  note v1 = T [where tid = "''t1''" and e = "InputValidationError []", THEN conjunct1, THEN mp, OF h1]
  note v2 = T [where tid = "''t1''" and e = "InputValidationError []",
      THEN conjunct2, THEN conjunct1, THEN mp, OF h2]
  note v3 = T [where tid = "''t1''" and e = "InputValidationError []",
      THEN conjunct2, THEN conjunct2, THEN conjunct1, THEN mp, OF h3]
  have f1: "fst (Tasks_post accept_all ''p1'' ''t9'' 50 (PStr ''   '') example_db)
      = Inl (InputValidationError '''title' cannot be empty.'')"
    by (simp add: e1)
  have f2: "fst (TaskById_put ''t1'' ''p1'' 50 (PStr ''   '') (PBool True) example_db)
      = Inl (InputValidationError '''title' cannot be empty if provided.'')"
    by (simp add: e2)
  have f3: "fst (Me_put ''p1'' 50 (PStr ''Ada'') (PStr ''   '') example_db)
      = Inl (InputValidationError '''last_name' cannot be empty if provided.'')"
    by (simp add: e3)
  note w1 = T [where tid = "''t1''" and e = "InputValidationError '''title' cannot be empty.''",
      THEN conjunct2, THEN conjunct2, THEN conjunct2, THEN conjunct1, THEN mp, OF f1]
  note w2 = T [where tid = "''t1''"
      and e = "InputValidationError '''title' cannot be empty if provided.''",
      THEN conjunct2, THEN conjunct2, THEN conjunct2, THEN conjunct2, THEN conjunct1, THEN mp,
      OF f2, THEN conjunct1]
  note w3 = T [where tid = "''t0''" and e = "InputValidationError ''Task not found.''",
      THEN conjunct2, THEN conjunct2, THEN conjunct2, THEN conjunct2, THEN conjunct2,
      THEN conjunct1, THEN mp, OF e4, THEN conjunct1]
  note w4 = T [where tid = "''t1''"
      and e = "InputValidationError '''last_name' cannot be empty if provided.''",
      THEN conjunct2, THEN conjunct2, THEN conjunct2, THEN conjunct2, THEN conjunct2,
      THEN conjunct2, THEN mp, OF f3, THEN conjunct2]
  from v1 v2 v3 e1 e2 e3 e4 w1 w2 w3 w4 show ?thesis by (simp only: simp_thms)
qed

end
